theory Spec2Isabelle
  imports Complex_Main
begin

section \<open>The shard-and-submit launcher\<close>

text \<open>
  Source: \<^verbatim>\<open>experiment_scripts/run_slurm_precompute_train_hypotheses.py\<close>.
  Python integers are \<open>int\<close>; the loop counter of \<^verbatim>\<open>range(N_SHARDS)\<close> is a \<open>nat\<close>
  that is converted where it is multiplied. Strings are \<open>string\<close>.
\<close>

subsection \<open>Python string helpers used by the script\<close>

definition newline :: char where
  "newline = CHR 0x0A"

definition digit_char :: "nat \<Rightarrow> char" where
  "digit_char d = ''0123456789'' ! d"

text \<open>\<^verbatim>\<open>str(n)\<close> for a non-negative integer: its decimal digits.\<close>

function str_nat :: "nat \<Rightarrow> string" where
  "str_nat n = (if n < 10 then [digit_char n] else str_nat (n div 10) @ [digit_char (n mod 10)])"
  by pat_completeness auto
termination
  by (relation "measure (\<lambda>n. n)") auto

declare str_nat.simps [simp del]

text \<open>\<^verbatim>\<open>str(i)\<close> for a Python integer.\<close>

definition str_int :: "int \<Rightarrow> string" where
  "str_int i = (if i < 0 then ''-'' @ str_nat (nat (- i)) else str_nat (nat i))"

text \<open>\<^verbatim>\<open>s.replace("\n", " ")\<close>: both strings are one character long.\<close>

definition replace_newlines :: "string \<Rightarrow> string" where
  "replace_newlines s = map (\<lambda>c. if c = newline then CHR '' '' else c) s"

text \<open>
  The whitespace that \<^verbatim>\<open>str.strip()\<close> removes, among the characters below
  \<^verbatim>\<open>0x100\<close>: tab, line feed, vertical tab, form feed, carriage return, the four
  separators \<^verbatim>\<open>0x1c..0x1f\<close>, the space, the next-line character \<^verbatim>\<open>0x85\<close> and
  the no-break space \<^verbatim>\<open>0xa0\<close>.
\<close>

definition is_space :: "char \<Rightarrow> bool" where
  "is_space c = (c \<in> set [CHR 0x09, CHR 0x0A, CHR 0x0B, CHR 0x0C, CHR 0x0D,
                            CHR 0x1C, CHR 0x1D, CHR 0x1E, CHR 0x1F, CHR 0x20,
                            CHR 0x85, CHR 0xA0])"

definition strip :: "string \<Rightarrow> string" where
  "strip s = rev (dropWhile is_space (rev (dropWhile is_space s)))"

text \<open>\<^verbatim>\<open>".".join(parts)\<close>.\<close>

fun join_dot :: "string list \<Rightarrow> string" where
  "join_dot [] = []"
| "join_dot [p] = p"
| "join_dot (p # q # ps) = p @ ''.'' @ join_dot (q # ps)"

subsection \<open>Constants and the command template\<close>

definition MSMARCO_LENGTH :: int where
  "MSMARCO_LENGTH = 8753404"

definition N_SHARDS :: nat where
  "N_SHARDS = 32"

text \<open>
  \<^verbatim>\<open>shard_length = math.ceil(MSMARCO_LENGTH / N_SHARDS)\<close>. The operator \<^verbatim>\<open>/\<close> is
  Python's true division; the quotient is taken in the reals and rounded up. For the
  constants of the script the quotient of the source is this real number: the dividend
  is below \<open>2 ^ 53\<close> and the divisor is a power of two.
\<close>

definition shard_length :: int where
  "shard_length = \<lceil>real_of_int MSMARCO_LENGTH / real N_SHARDS\<rceil>"

text \<open>
  \<^verbatim>\<open>BASE_PYTHON_CMD.format(start_idx=..., num_samples=...)\<close>. In the template every
  backslash is followed by a line end, which Python drops from the literal, so the
  template is one line between a leading and a trailing line feed.
\<close>

definition BASE_PYTHON_CMD_format :: "int \<Rightarrow> int \<Rightarrow> string" where
  "BASE_PYTHON_CMD_format start_idx num_samples =
     [newline] @ ''python precompute_train_hypotheses.py '' @
     ''--start_idx '' @ str_int start_idx @ '' '' @
     ''--num_samples '' @ str_int num_samples @ [newline]"

subsection \<open>Jobs, console and \<open>run_cmd\<close>\<close>

datatype kwarg = KStr string | KInt int

record slurm_job =
  job_name :: string
  slurm_kwargs :: "(string \<times> kwarg) list"
  slurm_flags :: "string list"
  command :: string

text \<open>
  The effects of the script: the texts given to \<^verbatim>\<open>print\<close>, in order, and the jobs
  handed to \<^verbatim>\<open>Slurm(...).run\<close>, in order.
\<close>

record launcher_state =
  printed :: "string list"
  submitted :: "slurm_job list"

definition print_line :: "string \<Rightarrow> launcher_state \<Rightarrow> launcher_state" where
  "print_line s st = st\<lparr>printed := printed st @ [s]\<rparr>"

definition the_slurm_kwargs :: "(string \<times> kwarg) list" where
  "the_slurm_kwargs =
     [(''partition'', KStr ''gpu,rush''),
      (''gres'', KStr ''gpu:a6000:1''),
      (''ntasks'', KInt 1),
      (''cpus-per-task'', KInt 4),
      (''mem'', KStr ''48G''),
      (''time'', KStr ''168:00:00'')]"

definition the_slurm_flags :: "string list" where
  "the_slurm_flags = [''requeue'']"

text \<open>
  \<^verbatim>\<open>run_cmd(cmd, job_desc)\<close>. The module constant \<^verbatim>\<open>ACTUALLY_RUN_COMMAND\<close> is the
  first argument, and the text that \<^verbatim>\<open>datetime.now().strftime(...)\<close> yields at this
  call is the second.
\<close>

definition run_cmd :: "bool \<Rightarrow> string \<Rightarrow> string \<Rightarrow> string \<Rightarrow> launcher_state \<Rightarrow> launcher_state" where
  "run_cmd actually_run dt_string cmd job_desc st =
     (let job_name = dt_string @ '' '' @ job_desc;
          st1 = print_line (''job_name >> '' @ job_name) st;
          st2 = print_line (''cmd >> '' @ strip cmd) st1;
          st3 = (if actually_run
                 then st2\<lparr>submitted := submitted st2 @
                        [\<lparr>job_name = job_name,
                          slurm_kwargs = the_slurm_kwargs,
                          slurm_flags = the_slurm_flags,
                          command = [newline] @ ''        '' @ cmd @ [newline] @ ''        ''\<rparr>]\<rparr>
                 else st2)
      in print_line [newline, newline] st3)"

subsection \<open>The top-level loop\<close>

definition start_idx_of :: "nat \<Rightarrow> int" where
  "start_idx_of i = int i * shard_length"

definition shard_cmd :: "nat \<Rightarrow> string" where
  "shard_cmd i = replace_newlines (BASE_PYTHON_CMD_format (int i * shard_length) shard_length)"

definition shard_job_desc :: "nat \<Rightarrow> string" where
  "shard_job_desc i =
     join_dot [''msmarco_precompute'', str_int (start_idx_of i), str_int shard_length]"

text \<open>The body of the \<^verbatim>\<open>for\<close> loop; \<open>now i\<close> is the clock's text at iteration \<open>i\<close>.\<close>

definition shard_iteration :: "bool \<Rightarrow> (nat \<Rightarrow> string) \<Rightarrow> nat \<Rightarrow> launcher_state \<Rightarrow> launcher_state" where
  "shard_iteration actually_run now i st =
     run_cmd actually_run (now i) (shard_cmd i) (shard_job_desc i) st"

fun launch_shards :: "bool \<Rightarrow> (nat \<Rightarrow> string) \<Rightarrow> nat list \<Rightarrow> launcher_state \<Rightarrow> launcher_state" where
  "launch_shards actually_run now [] st = st"
| "launch_shards actually_run now (i # rest) st =
     launch_shards actually_run now rest (shard_iteration actually_run now i st)"

definition final_print :: "bool \<Rightarrow> launcher_state \<Rightarrow> launcher_state" where
  "final_print actually_run st =
     (if actually_run
      then print_line (''successfully queued '' @ str_nat N_SHARDS @ '' jobs.'') st
      else print_line (''successfully queued '' @ str_nat N_SHARDS @ '' jobs. (pretend)'') st)"

definition launcher :: "bool \<Rightarrow> (nat \<Rightarrow> string) \<Rightarrow> launcher_state" where
  "launcher actually_run now =
     final_print actually_run
       (launch_shards actually_run now [0..<N_SHARDS] \<lparr>printed = [], submitted = []\<rparr>)"

text \<open>The module constant as the source sets it; \<open>launcher ACTUALLY_RUN_COMMAND\<close> is the script.\<close>

definition ACTUALLY_RUN_COMMAND :: bool where
  "ACTUALLY_RUN_COMMAND = True"

text \<open>The job that iteration \<open>i\<close> hands to \<^verbatim>\<open>Slurm(...).run\<close> when the toggle is on.\<close>

definition job_of :: "(nat \<Rightarrow> string) \<Rightarrow> nat \<Rightarrow> slurm_job" where
  "job_of now i =
     \<lparr>job_name = now i @ '' '' @ shard_job_desc i,
      slurm_kwargs = the_slurm_kwargs,
      slurm_flags = the_slurm_flags,
      command = [newline] @ ''        '' @ shard_cmd i @ [newline] @ ''        ''\<rparr>"

text \<open>The start indices the loop generates, and the half-open range of one shard.\<close>

definition start_idxs :: "int list" where
  "start_idxs = map start_idx_of [0..<N_SHARDS]"

definition shard_range :: "nat \<Rightarrow> int set" where
  "shard_range i = {start_idx_of i ..< start_idx_of i + shard_length}"

text \<open>Python's \<^verbatim>\<open>sub in s\<close> on strings, used to state what a printed line contains.\<close>

fun contains :: "string \<Rightarrow> string \<Rightarrow> bool" where
  "contains [] sub = (sub = [])"
| "contains (c # cs) sub = (take (length sub) (c # cs) = sub \<or> contains cs sub)"

section \<open>The corrector trainer\<close>

text \<open>
  Source: \<^verbatim>\<open>trainers/corrector.py\<close>. The base trainer, the inversion trainer, the
  models and the tokenizers are not part of this repository's sources; what the class
  reads and writes of them is modelled as data, and what it calls of them is taken as
  parameters.
\<close>

subsection \<open>Tensors\<close>

text \<open>
  Every tensor the class handles is a batch of rows: token ids, masks and embeddings
  are two-dimensional, with an explicit shape (a batch of zero rows still has a row
  length). The element type follows the tensor's dtype. A \<^verbatim>\<open>float32\<close> value is the
  real number it denotes; the class does no arithmetic on such values. Device
  placement is not part of the model.
\<close>

datatype 'a matrix = Mat (nrows: nat) (ncols: nat) (rows: "'a list list")

datatype tensor = LongT "int matrix" | FloatT "real matrix" | BoolT "bool matrix"

text \<open>
  The values of dtype \<^verbatim>\<open>torch.long\<close> are the integers from \<open>- 2 ^ 63\<close> up to
  \<open>2 ^ 63 - 1\<close>; arithmetic in that dtype wraps around.
\<close>

definition int64_range :: "int \<Rightarrow> bool" where
  "int64_range x = (- 9223372036854775808 \<le> x \<and> x < 9223372036854775808)"

definition wrap_int64 :: "int \<Rightarrow> int" where
  "wrap_int64 x = (x + 9223372036854775808) mod 18446744073709551616 - 9223372036854775808"

definition wf_matrix :: "'a matrix \<Rightarrow> bool" where
  "wf_matrix m = (length (rows m) = nrows m \<and> list_all (\<lambda>r. length r = ncols m) (rows m))"

fun wf_tensor :: "tensor \<Rightarrow> bool" where
  "wf_tensor (LongT m) = (wf_matrix m \<and> list_all (list_all int64_range) (rows m))"
| "wf_tensor (FloatT m) = wf_matrix m"
| "wf_tensor (BoolT m) = wf_matrix m"

text \<open>\<^verbatim>\<open>t.shape\<close>, unpacked as \<^verbatim>\<open>batch_size, seq_length\<close>.\<close>

fun shape :: "tensor \<Rightarrow> nat \<times> nat" where
  "shape (LongT m) = (nrows m, ncols m)"
| "shape (FloatT m) = (nrows m, ncols m)"
| "shape (BoolT m) = (nrows m, ncols m)"

text \<open>\<^verbatim>\<open>torch.ones((b, l))\<close>: the default dtype is \<^verbatim>\<open>float32\<close>.\<close>

definition torch_ones :: "nat \<Rightarrow> nat \<Rightarrow> tensor" where
  "torch_ones b l = FloatT (Mat b l (replicate b (replicate l 1)))"

text \<open>
  \<^verbatim>\<open>torch.ones((b, 1), dtype=torch.long) * eos_token_id\<close>. The Python integer
  \<^verbatim>\<open>eos_token_id\<close> is unbounded; the product is a value of dtype \<^verbatim>\<open>torch.long\<close>.
\<close>

definition eos_column :: "nat \<Rightarrow> int \<Rightarrow> tensor" where
  "eos_column b eos = LongT (Mat b 1 (replicate b (replicate 1 (wrap_int64 (1 * eos)))))"

text \<open>\<^verbatim>\<open>t[:, 1:]\<close>: every row without its first element; an empty row stays empty.\<close>

definition drop_first_column_m :: "'a matrix \<Rightarrow> 'a matrix" where
  "drop_first_column_m m = Mat (nrows m) (ncols m - 1) (map tl (rows m))"

fun drop_first_column :: "tensor \<Rightarrow> tensor" where
  "drop_first_column (LongT m) = LongT (drop_first_column_m m)"
| "drop_first_column (FloatT m) = FloatT (drop_first_column_m m)"
| "drop_first_column (BoolT m) = BoolT (drop_first_column_m m)"

datatype error = KeyError string | RuntimeError | AssertionError

text \<open>
  \<^verbatim>\<open>torch.cat((a, b), dim=1)\<close> on two-dimensional tensors: the row counts must agree,
  and rows are joined pairwise.
\<close>

definition cat_dim1_m :: "'a matrix \<Rightarrow> 'a matrix \<Rightarrow> error + 'a matrix" where
  "cat_dim1_m a b =
     (if nrows a = nrows b
      then Inr (Mat (nrows a) (ncols a + ncols b) (map2 (@) (rows a) (rows b)))
      else Inl RuntimeError)"

text \<open>
  The dtype of the result is the promoted dtype: bool below long below float. An
  integer promoted to \<^verbatim>\<open>float32\<close> is kept as the real number it is; the rounding of
  integers beyond \<open>2 ^ 24\<close> in magnitude is not modelled.
\<close>

fun torch_cat_dim1 :: "tensor \<Rightarrow> tensor \<Rightarrow> error + tensor" where
  "torch_cat_dim1 (LongT a) (LongT b) = map_sum id LongT (cat_dim1_m a b)"
| "torch_cat_dim1 (LongT a) (BoolT b) = map_sum id LongT (cat_dim1_m a (map_matrix of_bool b))"
| "torch_cat_dim1 (LongT a) (FloatT b) = map_sum id FloatT (cat_dim1_m (map_matrix of_int a) b)"
| "torch_cat_dim1 (BoolT a) (LongT b) = map_sum id LongT (cat_dim1_m (map_matrix of_bool a) b)"
| "torch_cat_dim1 (BoolT a) (BoolT b) = map_sum id BoolT (cat_dim1_m a b)"
| "torch_cat_dim1 (BoolT a) (FloatT b) = map_sum id FloatT (cat_dim1_m (map_matrix of_bool a) b)"
| "torch_cat_dim1 (FloatT a) (LongT b) = map_sum id FloatT (cat_dim1_m a (map_matrix of_int b))"
| "torch_cat_dim1 (FloatT a) (BoolT b) = map_sum id FloatT (cat_dim1_m a (map_matrix of_bool b))"
| "torch_cat_dim1 (FloatT a) (FloatT b) = map_sum id FloatT (cat_dim1_m a b)"

text \<open>\<^verbatim>\<open>t != pad_token_id\<close>, elementwise, with the scalar promoted to the tensor's dtype.\<close>

fun tensor_ne :: "tensor \<Rightarrow> int \<Rightarrow> tensor" where
  "tensor_ne (LongT m) v = BoolT (map_matrix (\<lambda>x. x \<noteq> v) m)"
| "tensor_ne (FloatT m) v = BoolT (map_matrix (\<lambda>x. x \<noteq> of_int v) m)"
| "tensor_ne (BoolT m) v = BoolT (map_matrix (\<lambda>x. of_bool x \<noteq> v) m)"

text \<open>\<^verbatim>\<open>t.to(device)\<close>: the same values, shape and dtype.\<close>

definition to_device :: "tensor \<Rightarrow> tensor" where
  "to_device t = t"

subsection \<open>Batches, objects and the world\<close>

type_synonym batch = "string \<rightharpoonup> tensor"

text \<open>\<^verbatim>\<open>inputs[k]\<close> raises \<^verbatim>\<open>KeyError\<close> on a missing key.\<close>

definition lookup :: "batch \<Rightarrow> string \<Rightarrow> error + tensor" where
  "lookup inputs k = (case inputs k of None \<Rightarrow> Inl (KeyError k) | Some t \<Rightarrow> Inr t)"

datatype gen_value = GBool bool | GInt int

type_synonym gen_kwargs = "(string \<times> gen_value) list"

record hf_tokenizer =
  eos_token_id :: int
  pad_token_id :: int

record training_arguments =
  fp16 :: bool
  bf16 :: bool

text \<open>
  The inversion model, as far as the class touches it: the \<^verbatim>\<open>requires_grad\<close> flag of
  each of its parameters, its \<^verbatim>\<open>use_frozen_embeddings_as_input\<close> attribute and its two
  tokenizers.
\<close>

record inversion_model =
  requires_grad :: "bool list"
  use_frozen_embeddings_as_input :: bool
  tokenizer :: hf_tokenizer
  embedder_tokenizer :: hf_tokenizer

text \<open>Datasets, the collator and the correction model are opaque objects of type \<open>'o\<close>.\<close>

record 'o inversion_trainer =
  model :: inversion_model
  args :: training_arguments
  train_dataset :: 'o
  eval_dataset :: 'o
  data_collator :: 'o

text \<open>What \<^verbatim>\<open>BaseTrainer.__init__\<close> stores in \<^verbatim>\<open>self\<close>.\<close>

record 'o base_trainer =
  self_model :: 'o
  self_args :: training_arguments
  self_train_dataset :: 'o
  self_eval_dataset :: 'o
  self_data_collator :: 'o

text \<open>
  A \<^verbatim>\<open>CorrectorTrainer\<close>: the base trainer's fields and the two tokenizers cached by
  the constructor. \<^verbatim>\<open>self.inversion_trainer\<close> is a reference to the caller's inversion
  trainer, which lives in the world below; \<^verbatim>\<open>self.call_embedding_model\<close> is a bound
  method of the inversion model and is called through the collaborators.
\<close>

record 'o corrector_trainer = "'o base_trainer" +
  self_tokenizer :: hf_tokenizer
  self_embedder_tokenizer :: hf_tokenizer

text \<open>
  The mutable state outside the class: torch's gradient mode, the inversion trainer
  object shared with the caller, and the calls made to \<^verbatim>\<open>BaseTrainer.__init__\<close>.
\<close>

record 'o world =
  grad_enabled :: bool
  inversion_trainer :: "'o inversion_trainer"
  base_trainer_inits :: "'o base_trainer list"

text \<open>
  The code the class calls and does not define. Each is a function of the object it is
  a method of, of torch's gradient mode at the time of the call, and of its arguments.
  Each returns a value: a call that raises inside a collaborator is not modelled, and
  no statement below speaks of such a call.
\<close>

record ('o, 'l) collaborators =
  call_embedding_model :: "inversion_model \<Rightarrow> bool \<Rightarrow> tensor \<Rightarrow> tensor \<Rightarrow> tensor"
  model_generate :: "inversion_model \<Rightarrow> bool \<Rightarrow> batch \<Rightarrow> gen_kwargs \<Rightarrow> tensor"
  model_forward :: "inversion_model \<Rightarrow> bool \<Rightarrow> tensor \<Rightarrow> tensor \<Rightarrow> tensor \<Rightarrow> tensor \<Rightarrow> 'l"
  trainer_generate :: "'o inversion_trainer \<Rightarrow> bool \<Rightarrow> batch \<Rightarrow> gen_kwargs \<Rightarrow> tensor"
  corrector_forward :: "'o \<Rightarrow> bool \<Rightarrow> tensor \<Rightarrow> tensor \<Rightarrow> tensor \<Rightarrow> tensor"

text \<open>
  \<^verbatim>\<open>with torch.no_grad():\<close> saves the gradient mode, switches it off for the body and
  puts the saved mode back on leaving, also when the body raises.
\<close>

definition no_grad :: "('o world \<Rightarrow> 'a \<times> 'o world) \<Rightarrow> 'o world \<Rightarrow> 'a \<times> 'o world" where
  "no_grad body w =
     (let prev = grad_enabled w;
          (r, w') = body (w\<lparr>grad_enabled := False\<rparr>)
      in (r, w'\<lparr>grad_enabled := prev\<rparr>))"

subsection \<open>The constructor\<close>

text \<open>
  Modelled from the spec: \<^verbatim>\<open>freeze_params\<close> of \<^verbatim>\<open>models.model_utils\<close> is not among the
  sources. The spec says of it that all parameters of the model are frozen (marked
  non-trainable): every \<^verbatim>\<open>requires_grad\<close> flag becomes false.
\<close>

definition freeze_params :: "inversion_model \<Rightarrow> inversion_model" where
  "freeze_params m = m\<lparr>requires_grad := map (\<lambda>_. False) (requires_grad m)\<rparr>"

text \<open>
  Modelled from the spec: \<^verbatim>\<open>BaseTrainer.__init__\<close> is not among the sources. The spec
  says the base trainer is initialized using the correction model, the given training
  configuration, and the train dataset, eval dataset and data collator handed to it;
  the call is recorded in the world and its arguments become the fields of \<^verbatim>\<open>self\<close>.
\<close>

definition BaseTrainer_init ::
  "'o \<Rightarrow> training_arguments \<Rightarrow> 'o \<Rightarrow> 'o \<Rightarrow> 'o \<Rightarrow> 'o world \<Rightarrow> 'o base_trainer \<times> 'o world" where
  "BaseTrainer_init m a tr ev dc w =
     (let base = \<lparr>self_model = m, self_args = a, self_train_dataset = tr,
                   self_eval_dataset = ev, self_data_collator = dc\<rparr>
      in (base, w\<lparr>base_trainer_inits := base_trainer_inits w @ [base]\<rparr>))"

text \<open>
  \<^verbatim>\<open>CorrectorTrainer.__init__(self, model, inversion_trainer, args)\<close>. The inversion
  trainer argument is the object in the world. The statements run in the order of the
  source; the two \<^verbatim>\<open>assert\<close>s are its last statements. When one fails, no trainer is
  returned, and the world is the one the statements before it have left.
\<close>

definition CorrectorTrainer_init ::
  "'o \<Rightarrow> training_arguments \<Rightarrow> 'o world \<Rightarrow> (error + 'o corrector_trainer) \<times> 'o world" where
  "CorrectorTrainer_init m a w =
     (let it = inversion_trainer w;
          it1 = it\<lparr>model := freeze_params (model it)\<rparr>;
          it2 = it1\<lparr>model := (model it1)\<lparr>use_frozen_embeddings_as_input := True\<rparr>\<rparr>;
          w1 = w\<lparr>inversion_trainer := it2\<rparr>;
          (base, w2) = BaseTrainer_init m a (train_dataset it2) (eval_dataset it2)
                         (data_collator it2) w1;
          self = \<lparr>self_model = self_model base, self_args = self_args base,
                   self_train_dataset = self_train_dataset base,
                   self_eval_dataset = self_eval_dataset base,
                   self_data_collator = self_data_collator base,
                   self_tokenizer = tokenizer (model (inversion_trainer w2)),
                   self_embedder_tokenizer = embedder_tokenizer (model (inversion_trainer w2))\<rparr>
      in if fp16 (self_args self) \<noteq> fp16 (args (inversion_trainer w2))
         then (Inl AssertionError, w2)
         else if bf16 (self_args self) \<noteq> bf16 (args (inversion_trainer w2))
         then (Inl AssertionError, w2)
         else (Inr self, w2))"

subsection \<open>\<open>generate\<close>\<close>

text \<open>
  The body of the \<^verbatim>\<open>with\<close> block of \<^verbatim>\<open>generate\<close>: the frozen embedding of the
  embedder inputs, then the correction model on it and the batch's own inputs. The keys
  are read in the order of the source.
\<close>

definition corrected_embeddings ::
  "'o corrector_trainer \<Rightarrow> ('o, 'l) collaborators \<Rightarrow> batch \<Rightarrow> 'o world \<Rightarrow> error + tensor" where
  "corrected_embeddings self env inputs w =
     (case lookup inputs ''embedder_input_ids'' of Inl e \<Rightarrow> Inl e | Inr e_ids \<Rightarrow>
      case lookup inputs ''embedder_attention_mask'' of Inl e \<Rightarrow> Inl e | Inr e_mask \<Rightarrow>
      let frozen_embeddings =
            call_embedding_model env (model (inversion_trainer w)) (grad_enabled w) e_ids e_mask
      in
      case lookup inputs ''input_ids'' of Inl e \<Rightarrow> Inl e | Inr ids \<Rightarrow>
      case lookup inputs ''attention_mask'' of Inl e \<Rightarrow> Inl e | Inr att_mask \<Rightarrow>
      Inr (corrector_forward env (self_model self) (grad_enabled w) frozen_embeddings ids att_mask))"

text \<open>
  \<^verbatim>\<open>generate(self, inputs, generation_kwargs)\<close>. The result is the returned value (or the
  error raised), the caller's mapping as the call leaves it, and the world.
\<close>

definition generate ::
  "'o corrector_trainer \<Rightarrow> ('o, 'l) collaborators \<Rightarrow> batch \<Rightarrow> gen_kwargs \<Rightarrow> 'o world
     \<Rightarrow> ((error + tensor) \<times> batch) \<times> 'o world" where
  "generate self env inputs generation_kwargs w =
     (let (r, w1) = no_grad (\<lambda>v. (corrected_embeddings self env inputs v, v)) w
      in case r of
           Inl e \<Rightarrow> ((Inl e, inputs), w1)
         | Inr new_embeddings \<Rightarrow>
             let inputs' = inputs(''frozen_embeddings'' \<mapsto> new_embeddings)
             in ((Inr (trainer_generate env (inversion_trainer w1) (grad_enabled w1)
                         inputs' generation_kwargs), inputs'), w1))"

subsection \<open>\<open>compute_loss\<close>\<close>

definition fixed_generation_kwargs :: gen_kwargs where
  "fixed_generation_kwargs =
     [(''early_stopping'', GBool False), (''num_beams'', GInt 1),
      (''do_sample'', GBool False), (''no_repeat_ngram_size'', GInt 3)]"

text \<open>The \<^verbatim>\<open>with\<close> block of \<^verbatim>\<open>compute_loss\<close>.\<close>

definition frozen_embeddings_of ::
  "('o, 'l) collaborators \<Rightarrow> batch \<Rightarrow> 'o world \<Rightarrow> error + tensor" where
  "frozen_embeddings_of env inputs w =
     (case lookup inputs ''embedder_input_ids'' of Inl e \<Rightarrow> Inl e | Inr e_ids \<Rightarrow>
      case lookup inputs ''embedder_attention_mask'' of Inl e \<Rightarrow> Inl e | Inr e_mask \<Rightarrow>
      Inr (call_embedding_model env (model (inversion_trainer w)) (grad_enabled w) e_ids e_mask))"

text \<open>The mapping built for the inversion model's \<^verbatim>\<open>generate\<close>.\<close>

definition generation_inputs :: "tensor \<Rightarrow> tensor \<Rightarrow> tensor \<Rightarrow> batch" where
  "generation_inputs fake_embedder_input_ids fake_embedder_attention_mask frozen_embeddings =
     [''embedder_input_ids'' \<mapsto> fake_embedder_input_ids,
      ''embedder_attention_mask'' \<mapsto> fake_embedder_attention_mask,
      ''frozen_embeddings'' \<mapsto> frozen_embeddings]"

text \<open>
  \<^verbatim>\<open>torch.cat((hypothesis_input_ids[:, 1:], eos_tokens), dim=1)\<close> for a generation
  \<open>g\<close>, with \<^verbatim>\<open>eos_tokens\<close> of \<open>batch_size\<close> rows.
\<close>

definition hypothesis_input_ids :: "tensor \<Rightarrow> nat \<Rightarrow> int \<Rightarrow> error + tensor" where
  "hypothesis_input_ids g batch_size eos = torch_cat_dim1 (drop_first_column g) (eos_column batch_size eos)"

text \<open>
  \<^verbatim>\<open>compute_loss(self, model, inputs, return_outputs=False)\<close>. The source uses neither
  \<^verbatim>\<open>model\<close> nor \<^verbatim>\<open>return_outputs\<close>, and never assigns to \<^verbatim>\<open>inputs\<close>.
\<close>

definition compute_loss ::
  "'o corrector_trainer \<Rightarrow> ('o, 'l) collaborators \<Rightarrow> 'o \<Rightarrow> batch \<Rightarrow> bool \<Rightarrow> 'o world
     \<Rightarrow> ((error + 'l) \<times> batch) \<times> 'o world" where
  "compute_loss self env model_arg inputs return_outputs w =
     (case lookup inputs ''input_ids'' of Inl e \<Rightarrow> ((Inl e, inputs), w) | Inr input_ids \<Rightarrow>
      let (batch_size, seq_length) = shape input_ids;
          fake_embedder_input_ids = torch_ones batch_size seq_length;
          fake_embedder_attention_mask = torch_ones batch_size seq_length;
          (r, w1) = no_grad (\<lambda>v. (frozen_embeddings_of env inputs v, v)) w
      in case r of Inl e \<Rightarrow> ((Inl e, inputs), w1) | Inr frozen_embeddings \<Rightarrow>
      let inv = model (inversion_trainer w1);
          g = model_generate env inv (grad_enabled w1)
                (generation_inputs fake_embedder_input_ids fake_embedder_attention_mask
                   frozen_embeddings)
                fixed_generation_kwargs;
          eos = eos_token_id (embedder_tokenizer inv)
      in case hypothesis_input_ids g batch_size eos of
           Inl e \<Rightarrow> ((Inl e, inputs), w1)
         | Inr hyp_ids \<Rightarrow>
      let hyp_mask = tensor_ne hyp_ids (pad_token_id (self_embedder_tokenizer self));
          new_embeddings = corrector_forward env (self_model self) (grad_enabled w1)
                             frozen_embeddings hyp_ids hyp_mask
      in case lookup inputs ''labels'' of Inl e \<Rightarrow> ((Inl e, inputs), w1) | Inr labels \<Rightarrow>
         ((Inr (model_forward env inv (grad_enabled w1) fake_embedder_input_ids
                  fake_embedder_attention_mask labels new_embeddings), inputs), w1))"

subsection \<open>\<open>prediction_step\<close>\<close>

text \<open>
  \<^verbatim>\<open>prediction_step(self, model, inputs, prediction_loss_only, ignore_keys=None)\<close>.
  The comprehension binds the local name \<^verbatim>\<open>inputs\<close> to a new mapping; the caller's
  mapping is not written. The returned tuple is \<^verbatim>\<open>(loss, None, None)\<close>.
\<close>

definition prediction_step ::
  "'o corrector_trainer \<Rightarrow> ('o, 'l) collaborators \<Rightarrow> 'o \<Rightarrow> batch \<Rightarrow> bool \<Rightarrow> string list option
     \<Rightarrow> 'o world \<Rightarrow> ((error + 'l \<times> tensor option \<times> tensor option) \<times> batch) \<times> 'o world" where
  "prediction_step self env model_arg inputs prediction_loss_only ignore_keys w =
     (let moved = (\<lambda>key. map_option to_device (inputs key));
          (r, w1) = no_grad (\<lambda>v. (let ((l, _), v') = compute_loss self env model_arg moved False v
                                    in (l, v'))) w
      in case r of
           Inl e \<Rightarrow> ((Inl e, inputs), w1)
         | Inr loss \<Rightarrow> ((Inr (loss, None, None), inputs), w1))"

subsection \<open>Predicates and abbreviations used in the statements\<close>

text \<open>
  The state of the inversion model that the constructor establishes: no parameter
  requires gradients, and the model takes frozen embeddings as input.
\<close>

definition inversion_model_frozen :: "'o world \<Rightarrow> bool" where
  "inversion_model_frozen w =
     (list_all (\<lambda>p. \<not> p) (requires_grad (model (inversion_trainer w)))
      \<and> use_frozen_embeddings_as_input (model (inversion_trainer w)))"

text \<open>
  The world that the statements of the constructor before its assertions leave behind:
  the inversion model frozen and switched to frozen embeddings, and the base trainer
  initialised with the correction model, the arguments and the inversion trainer's
  datasets and collator.
\<close>

definition after_construction :: "'o \<Rightarrow> training_arguments \<Rightarrow> 'o world \<Rightarrow> 'o world" where
  "after_construction m a w =
     w\<lparr>inversion_trainer :=
          (inversion_trainer w)
            \<lparr>model := (freeze_params (model (inversion_trainer w)))
                        \<lparr>use_frozen_embeddings_as_input := True\<rparr>\<rparr>,
        base_trainer_inits :=
          base_trainer_inits w @
            [\<lparr>self_model = m, self_args = a,
              self_train_dataset = train_dataset (inversion_trainer w),
              self_eval_dataset = eval_dataset (inversion_trainer w),
              self_data_collator = data_collator (inversion_trainer w)\<rparr>]\<rparr>"

subsection \<open>A concrete trainer, world, batch and collaborators\<close>

text \<open>
  A small instance on which the operations are evaluated: a batch of two sequences of
  length three, an inversion model of three parameters, and collaborators that are
  simple functions of their arguments. The inversion trainer's \<^verbatim>\<open>generate\<close> of the
  instance returns the gradient mode it is called under, as a one-element tensor, and
  the inversion model's forward pass returns a loss that depends on that mode.
\<close>

definition demo_tokenizer :: hf_tokenizer where
  "demo_tokenizer = \<lparr>eos_token_id = 1, pad_token_id = 0\<rparr>"

definition demo_inversion_model :: inversion_model where
  "demo_inversion_model =
     \<lparr>requires_grad = [True, True, False], use_frozen_embeddings_as_input = False,
      tokenizer = demo_tokenizer, embedder_tokenizer = demo_tokenizer\<rparr>"

definition demo_world :: "nat world" where
  "demo_world =
     \<lparr>grad_enabled = True,
      inversion_trainer =
        \<lparr>model = demo_inversion_model, args = \<lparr>fp16 = True, bf16 = False\<rparr>,
         train_dataset = 1, eval_dataset = 2, data_collator = 3\<rparr>,
      base_trainer_inits = []\<rparr>"

definition demo_trainer :: "nat corrector_trainer" where
  "demo_trainer =
     \<lparr>self_model = 0, self_args = \<lparr>fp16 = True, bf16 = False\<rparr>,
      self_train_dataset = 1, self_eval_dataset = 2, self_data_collator = 3,
      self_tokenizer = demo_tokenizer, self_embedder_tokenizer = demo_tokenizer\<rparr>"

definition demo_env :: "(nat, int) collaborators" where
  "demo_env =
     \<lparr>call_embedding_model =
        (\<lambda>m g ids am. FloatT (Mat (fst (shape ids)) 2 (replicate (fst (shape ids)) [0, 1]))),
      model_generate = (\<lambda>m g b kw. LongT (Mat 2 3 [[0, 5, 6], [0, 7, 1]])),
      model_forward = (\<lambda>m g fi fm labels emb. int (fst (shape labels)) * 10 + (if g then 1 else 0)),
      trainer_generate = (\<lambda>it g b kw. BoolT (Mat 1 1 [[g]])),
      corrector_forward =
        (\<lambda>m g emb ids am. FloatT (Mat (fst (shape emb)) 2 (replicate (fst (shape emb)) [7, 7])))\<rparr>"

definition demo_batch :: batch where
  "demo_batch =
     [''input_ids'' \<mapsto> LongT (Mat 2 3 [[4, 5, 1], [6, 1, 0]]),
      ''attention_mask'' \<mapsto> LongT (Mat 2 3 [[1, 1, 1], [1, 1, 0]]),
      ''embedder_input_ids'' \<mapsto> LongT (Mat 2 3 [[4, 5, 1], [6, 1, 0]]),
      ''embedder_attention_mask'' \<mapsto> LongT (Mat 2 3 [[1, 1, 1], [1, 1, 0]]),
      ''labels'' \<mapsto> LongT (Mat 2 3 [[4, 5, 1], [6, 1, 0]])]"

text \<open>The same batch with other token ids in \<^verbatim>\<open>input_ids\<close>, of the same shape.\<close>

definition probe_batch :: batch where
  "probe_batch = demo_batch(''input_ids'' \<mapsto> LongT (Mat 2 3 [[9, 9, 9], [8, 8, 8]]))"

text \<open>
  Training arguments whose precision flags differ from, and agree with, those of the
  instance's inversion trainer.
\<close>

definition mismatched_args :: training_arguments where
  "mismatched_args = \<lparr>fp16 = False, bf16 = True\<rparr>"

definition matching_args :: training_arguments where
  "matching_args = \<lparr>fp16 = True, bf16 = False\<rparr>"

text \<open>A second set of collaborators: as \<open>demo_env\<close> when gradients are off, different when on.\<close>

definition demo_env_grad :: "(nat, int) collaborators" where
  "demo_env_grad =
     demo_env\<lparr>call_embedding_model :=
                 (\<lambda>m g ids am. if g then ids else call_embedding_model demo_env m g ids am),
               corrector_forward :=
                 (\<lambda>c g emb ids am. if g then emb else corrector_forward demo_env c g emb ids am)\<rparr>"

section \<open>Properties of the launcher\<close>

lemma shard_length_value: "shard_length = 273544"
  by (simp add: shard_length_def MSMARCO_LENGTH_def N_SHARDS_def)

lemma str_nat_N_SHARDS: "str_nat N_SHARDS = ''32''"
  by (simp add: N_SHARDS_def str_nat.simps digit_char_def)

lemma start_idx_of_value: "start_idx_of i = int i * 273544"
  by (simp add: start_idx_of_def shard_length_value)

lemma shard_range_disjoint_lt:
  assumes "i < j"
  shows "shard_range i \<inter> shard_range j = {}"
proof -
  from assms have "int i + 1 \<le> int j" by simp
  then have "(int i + 1) * 273544 \<le> int j * 273544" by simp
  then have "start_idx_of i + shard_length \<le> start_idx_of j"
    by (simp add: start_idx_of_value shard_length_value algebra_simps)
  then show ?thesis
    by (auto simp: shard_range_def)
qed

lemma shard_range_disjoint: "i \<noteq> j \<Longrightarrow> shard_range i \<inter> shard_range j = {}"
  using shard_range_disjoint_lt [of i j] shard_range_disjoint_lt [of j i]
  by (cases "i < j") (auto simp: Int_commute)

lemma start_idxs_increasing: "sorted_wrt (<) start_idxs"
  unfolding start_idxs_def sorted_wrt_map
  by (rule sorted_wrt_mono_rel [OF _ sorted_wrt_upt]) (simp add: start_idx_of_value)

lemma submitted_dry: "submitted (launch_shards False now is st) = submitted st"
  by (induction "is" arbitrary: st)
     (simp_all add: shard_iteration_def run_cmd_def print_line_def Let_def)

lemma submitted_real:
  "submitted (launch_shards True now is st) = submitted st @ map (job_of now) is"
  by (induction "is" arbitrary: st)
     (simp_all add: shard_iteration_def run_cmd_def print_line_def Let_def job_of_def)

lemma final_print_submitted: "submitted (final_print b st) = submitted st"
  by (simp add: final_print_def print_line_def)

lemma final_print_last:
  "last (printed (final_print b st)) =
     (if b then ''successfully queued 32 jobs.'' else ''successfully queued 32 jobs. (pretend)'')"
  by (simp add: final_print_def print_line_def str_nat_N_SHARDS)

lemma submitted_launcher_real: "submitted (launcher True now) = map (job_of now) [0..<N_SHARDS]"
  by (simp add: launcher_def final_print_submitted submitted_real)

lemma digit_char_not_newline: "d < 10 \<Longrightarrow> digit_char d \<noteq> newline"
proof -
  assume "d < 10"
  then have "digit_char d \<in> set ''0123456789''"
    unfolding digit_char_def by (intro nth_mem) simp
  then show ?thesis by (auto simp: newline_def)
qed

lemma str_nat_no_newline: "newline \<notin> set (str_nat n)"
proof (induction n rule: str_nat.induct)
  case (1 n)
  show ?case
  proof (cases "n < 10")
    case True
    then show ?thesis
      using digit_char_not_newline [of n] by (subst str_nat.simps) auto
  next
    case False
    then have "newline \<notin> set (str_nat (n div 10))" by (rule "1.IH")
    moreover have "digit_char (n mod 10) \<noteq> newline"
      by (rule digit_char_not_newline) simp
    ultimately show ?thesis
      using False by (subst str_nat.simps) auto
  qed
qed

lemma replace_newlines_str_int: "replace_newlines (str_int x) = str_int x"
proof -
  have "newline \<notin> set (str_int x)"
    using str_nat_no_newline by (auto simp: str_int_def newline_def)
  then show ?thesis
    unfolding replace_newlines_def by (intro map_idI) auto
qed

lemma replace_newlines_append: "replace_newlines (a @ b) = replace_newlines a @ replace_newlines b"
  by (simp add: replace_newlines_def)

lemma replace_newlines_Nil: "replace_newlines [] = []"
  by (simp add: replace_newlines_def)

lemma replace_newlines_Cons:
  "replace_newlines (c # cs) = (if c = newline then CHR '' '' else c) # replace_newlines cs"
  by (simp add: replace_newlines_def)

lemma shard_cmd_text:
  "shard_cmd i = '' python precompute_train_hypotheses.py --start_idx '' @ str_int (start_idx_of i)
                   @ '' --num_samples '' @ str_int shard_length @ '' ''"
  by (simp add: shard_cmd_def BASE_PYTHON_CMD_format_def replace_newlines_append
      replace_newlines_Cons replace_newlines_Nil replace_newlines_str_int start_idx_of_def
      newline_def)

lemma shard_job_desc_text:
  "shard_job_desc i = ''msmarco_precompute.'' @ str_int (start_idx_of i) @ ''.'' @ str_int shard_length"
  by (simp add: shard_job_desc_def)

text \<open>
  Claim C1. With \<open>N_SHARDS = 32\<close> and \<open>MSMARCO_LENGTH = 8753404\<close> the shard length is
  \<open>273544\<close>; the start indices of the loop are \<open>i * 273544\<close> for \<open>i = 0, ..., 31\<close>, in
  strictly increasing order and each a multiple of the shard length; the ranges of two
  different shards do not meet; and the last shard ends at or after the dataset's end.
  These start indices are the ones the launcher emits: the job of iteration \<open>i\<close> carries
  the start index of shard \<open>i\<close> and the shard length in its name and in its command.
\<close>

theorem shard_plan:
  "shard_length = 273544
   \<and> start_idxs = map (\<lambda>i. int i * 273544) [0..<32]
   \<and> sorted_wrt (<) start_idxs
   \<and> (\<forall>s \<in> set start_idxs. shard_length dvd s)
   \<and> (\<forall>i < N_SHARDS. \<forall>j < N_SHARDS. i \<noteq> j \<longrightarrow> shard_range i \<inter> shard_range j = {})
   \<and> MSMARCO_LENGTH \<le> start_idx_of (N_SHARDS - 1) + shard_length
   \<and> map job_name (submitted (launcher True now)) =
       map (\<lambda>i. now i @ '' msmarco_precompute.'' @ str_int (start_idx_of i) @ ''.''
                  @ str_int shard_length) [0..<N_SHARDS]
   \<and> map command (submitted (launcher True now)) =
       map (\<lambda>i. [newline] @ ''        ''
                  @ '' python precompute_train_hypotheses.py --start_idx ''
                  @ str_int (start_idx_of i) @ '' --num_samples '' @ str_int shard_length @ '' ''
                  @ [newline] @ ''        '') [0..<N_SHARDS]"
proof (intro conjI)
  show "shard_length = 273544" by (rule shard_length_value)
  show "start_idxs = map (\<lambda>i. int i * 273544) [0..<32]"
    unfolding start_idxs_def N_SHARDS_def by (rule map_cong) (simp_all add: start_idx_of_value)
  show "sorted_wrt (<) start_idxs" by (rule start_idxs_increasing)
  show "\<forall>s \<in> set start_idxs. shard_length dvd s"
    by (auto simp: start_idxs_def start_idx_of_def)
  show "\<forall>i < N_SHARDS. \<forall>j < N_SHARDS. i \<noteq> j \<longrightarrow> shard_range i \<inter> shard_range j = {}"
    by (simp add: shard_range_disjoint)
  show "MSMARCO_LENGTH \<le> start_idx_of (N_SHARDS - 1) + shard_length"
    by (simp add: start_idx_of_value shard_length_value N_SHARDS_def MSMARCO_LENGTH_def)
  show "map job_name (submitted (launcher True now)) =
       map (\<lambda>i. now i @ '' msmarco_precompute.'' @ str_int (start_idx_of i) @ ''.''
                  @ str_int shard_length) [0..<N_SHARDS]"
    by (simp add: submitted_launcher_real job_of_def shard_job_desc_text)
  show "map command (submitted (launcher True now)) =
       map (\<lambda>i. [newline] @ ''        ''
                  @ '' python precompute_train_hypotheses.py --start_idx ''
                  @ str_int (start_idx_of i) @ '' --num_samples '' @ str_int shard_length @ '' ''
                  @ [newline] @ ''        '') [0..<N_SHARDS]"
    by (simp add: submitted_launcher_real job_of_def shard_cmd_text)
qed

theorem shard_plan_witness:
  "shard_length dvd start_idx_of 5 \<and> start_idx_of 5 \<in> set start_idxs
   \<and> shard_range 3 \<inter> shard_range 7 = {} \<and> start_idx_of 5 = 1367720"
proof -
  note T = shard_plan [of "\<lambda>i. []"]
  note D = T [THEN conjunct2, THEN conjunct2, THEN conjunct2, THEN conjunct1]
  note R = T [THEN conjunct2, THEN conjunct2, THEN conjunct2, THEN conjunct2, THEN conjunct1]
  have m: "start_idx_of 5 \<in> set start_idxs"
    by (simp add: start_idxs_def N_SHARDS_def)
  have n: "(3::nat) < N_SHARDS" "(7::nat) < N_SHARDS" "(3::nat) \<noteq> 7"
    by (simp_all add: N_SHARDS_def)
  from D m have d: "shard_length dvd start_idx_of 5" by (rule bspec)
  from R n have r: "shard_range 3 \<inter> shard_range 7 = {}" by blast
  have v: "start_idx_of 5 = 1367720" by (simp add: start_idx_of_value)
  from d m r v show ?thesis by (intro conjI)
qed

lemma script_as_written:
  "submitted (launcher ACTUALLY_RUN_COMMAND now) = map (job_of now) [0..<N_SHARDS]"
  by (simp add: ACTUALLY_RUN_COMMAND_def submitted_launcher_real)

text \<open>
  Claim C8. With the toggle off the launcher submits no job and its last printed line
  is \<^verbatim>\<open>successfully queued 32 jobs. (pretend)\<close>; with the toggle on it submits exactly
  32 jobs, each with \<^verbatim>\<open>"time": "168:00:00"\<close> among its resources and the flag
  \<^verbatim>\<open>requeue\<close>, and its last printed line is \<^verbatim>\<open>successfully queued 32 jobs.\<close>, which
  does not contain \<^verbatim>\<open>(pretend)\<close>. This holds for every clock.
\<close>

theorem launcher_submissions:
  "submitted (launcher False now) = []
   \<and> last (printed (launcher False now)) = ''successfully queued 32 jobs. (pretend)''
   \<and> contains (last (printed (launcher False now))) ''(pretend)''
   \<and> contains (last (printed (launcher False now))) ''32''
   \<and> length (submitted (launcher True now)) = 32
   \<and> (\<forall>j \<in> set (submitted (launcher True now)).
         map_of (slurm_kwargs j) ''time'' = Some (KStr ''168:00:00'')
         \<and> ''requeue'' \<in> set (slurm_flags j))
   \<and> last (printed (launcher True now)) = ''successfully queued 32 jobs.''
   \<and> \<not> contains (last (printed (launcher True now))) ''(pretend)''"
proof (intro conjI)
  show "submitted (launcher False now) = []"
    by (simp add: launcher_def final_print_submitted submitted_dry)
  show a: "last (printed (launcher False now)) = ''successfully queued 32 jobs. (pretend)''"
    by (simp add: launcher_def final_print_last)
  show "contains (last (printed (launcher False now))) ''(pretend)''"
    unfolding a by simp
  show "contains (last (printed (launcher False now))) ''32''"
    unfolding a by simp
  show "length (submitted (launcher True now)) = 32"
    by (simp add: submitted_launcher_real N_SHARDS_def)
  show "\<forall>j \<in> set (submitted (launcher True now)).
         map_of (slurm_kwargs j) ''time'' = Some (KStr ''168:00:00'')
         \<and> ''requeue'' \<in> set (slurm_flags j)"
    unfolding submitted_launcher_real
    by (auto simp: job_of_def the_slurm_kwargs_def the_slurm_flags_def)
  show b: "last (printed (launcher True now)) = ''successfully queued 32 jobs.''"
    by (simp add: launcher_def final_print_last)
  show "\<not> contains (last (printed (launcher True now))) ''(pretend)''"
    unfolding b by simp
qed

theorem launcher_submissions_witness:
  "map_of (slurm_kwargs (submitted (launcher True (\<lambda>i. ''03/11/2026 10:00:00'')) ! 4)) ''time''
     = Some (KStr ''168:00:00'')
   \<and> job_name (submitted (launcher True (\<lambda>i. ''03/11/2026 10:00:00'')) ! 4)
     = ''03/11/2026 10:00:00 msmarco_precompute.1094176.273544''"
proof -
  let ?now = "\<lambda>i::nat. ''03/11/2026 10:00:00''"
  have m: "submitted (launcher True ?now) ! 4 \<in> set (submitted (launcher True ?now))"
    by (rule nth_mem) (simp add: submitted_launcher_real N_SHARDS_def)
  have n: "job_name (submitted (launcher True ?now) ! 4)
     = ''03/11/2026 10:00:00 msmarco_precompute.1094176.273544''"
    by (simp add: submitted_launcher_real N_SHARDS_def job_of_def shard_job_desc_def
        start_idx_of_value shard_length_value str_int_def str_nat.simps digit_char_def)
  from launcher_submissions [of ?now] m n show ?thesis by blast
qed

section \<open>Properties of the corrector trainer\<close>

subsection \<open>Basic facts about the operations\<close>

lemma no_grad_pure: "no_grad (\<lambda>v. (f v, v)) w = (f (w\<lparr>grad_enabled := False\<rparr>), w)"
  by (simp add: no_grad_def)

lemma lookup_Some: "inputs k = Some t \<Longrightarrow> lookup inputs k = Inr t"
  by (simp add: lookup_def)

lemma generate_world: "snd (generate self env inputs kw w) = w"
  by (simp add: generate_def no_grad_pure Let_def split: sum.splits)

lemma compute_loss_world: "snd (compute_loss self env m inputs ro w) = w"
  by (simp add: compute_loss_def no_grad_pure Let_def split: sum.splits prod.splits)

lemma compute_loss_batch: "snd (fst (compute_loss self env m inputs ro w)) = inputs"
  by (simp add: compute_loss_def no_grad_pure Let_def split: sum.splits prod.splits)

lemma moved_same: "(\<lambda>key. map_option to_device (inputs key)) = inputs"
proof (rule ext)
  fix key
  show "map_option to_device (inputs key) = inputs key"
    by (cases "inputs key") (simp_all add: to_device_def)
qed

lemma compute_loss_triple:
  "compute_loss self env m inputs ro w = ((fst (fst (compute_loss self env m inputs ro w)), inputs), w)"
  by (metis compute_loss_batch compute_loss_world prod.collapse)

lemma prediction_step_world: "snd (prediction_step self env m inputs plo ik w) = w"
  apply (simp add: prediction_step_def Let_def moved_same)
  apply (subst compute_loss_triple)
  apply (simp add: no_grad_def split: sum.splits)
  done

lemma corrected_embeddings_ok:
  assumes "inputs ''embedder_input_ids'' = Some e_ids"
      and "inputs ''embedder_attention_mask'' = Some e_mask"
      and "inputs ''input_ids'' = Some ids"
      and "inputs ''attention_mask'' = Some am"
  shows "corrected_embeddings self env inputs v =
           Inr (corrector_forward env (self_model self) (grad_enabled v)
                  (call_embedding_model env (model (inversion_trainer v)) (grad_enabled v) e_ids e_mask)
                  ids am)"
  using assms by (simp add: corrected_embeddings_def lookup_Some)

lemma generate_ok:
  assumes "inputs ''embedder_input_ids'' = Some e_ids"
      and "inputs ''embedder_attention_mask'' = Some e_mask"
      and "inputs ''input_ids'' = Some ids"
      and "inputs ''attention_mask'' = Some am"
  shows "generate self env inputs kw w =
           (let new_embeddings = corrector_forward env (self_model self) False
                  (call_embedding_model env (model (inversion_trainer w)) False e_ids e_mask) ids am;
                inputs' = inputs(''frozen_embeddings'' \<mapsto> new_embeddings)
            in ((Inr (trainer_generate env (inversion_trainer w) (grad_enabled w) inputs' kw),
                 inputs'), w))"
  by (simp add: generate_def no_grad_pure corrected_embeddings_ok [OF assms] Let_def)


subsection \<open>Facts about the concrete instance\<close>

lemma demo_keys:
  "demo_batch ''embedder_input_ids'' = Some (LongT (Mat 2 3 [[4, 5, 1], [6, 1, 0]]))"
  "demo_batch ''embedder_attention_mask'' = Some (LongT (Mat 2 3 [[1, 1, 1], [1, 1, 0]]))"
  "demo_batch ''input_ids'' = Some (LongT (Mat 2 3 [[4, 5, 1], [6, 1, 0]]))"
  "demo_batch ''attention_mask'' = Some (LongT (Mat 2 3 [[1, 1, 1], [1, 1, 0]]))"
  "demo_batch ''labels'' = Some (LongT (Mat 2 3 [[4, 5, 1], [6, 1, 0]]))"
  "demo_batch ''frozen_embeddings'' = None"
  by (simp_all add: demo_batch_def)

lemma demo_env_simps:
  "call_embedding_model demo_env m g i a = FloatT (Mat (fst (shape i)) 2 (replicate (fst (shape i)) [0, 1]))"
  "model_generate demo_env m g b kw = LongT (Mat 2 3 [[0, 5, 6], [0, 7, 1]])"
  "model_forward demo_env m g fi fm lb emb = int (fst (shape lb)) * 10 + (if g then 1 else 0)"
  "trainer_generate demo_env it g b kw = BoolT (Mat 1 1 [[g]])"
  "corrector_forward demo_env c g emb i a = FloatT (Mat (fst (shape emb)) 2 (replicate (fst (shape emb)) [7, 7]))"
  by (simp_all add: demo_env_def)

lemma demo_world_simps:
  "grad_enabled demo_world = True"
  "eos_token_id (embedder_tokenizer (model (inversion_trainer demo_world))) = 1"
  "pad_token_id (self_embedder_tokenizer demo_trainer) = 0"
  by (simp_all add: demo_world_def demo_inversion_model_def demo_tokenizer_def demo_trainer_def)

lemma replicate_two: "replicate 2 x = [x, x]"
  by (simp add: numeral_2_eq_2)

lemma demo_loss_grad_on:
  "fst (fst (compute_loss demo_trainer demo_env 0 demo_batch False demo_world)) = Inr 21"
  by (simp add: compute_loss_def lookup_def demo_keys no_grad_pure frozen_embeddings_of_def
      hypothesis_input_ids_def drop_first_column_m_def eos_column_def wrap_int64_def cat_dim1_m_def
      demo_env_def demo_world_def Let_def)

lemma demo_loss_grad_off:
  "fst (fst (compute_loss demo_trainer demo_env 0 demo_batch False
               (demo_world\<lparr>grad_enabled := False\<rparr>))) = Inr 20"
  by (simp add: compute_loss_def lookup_def demo_keys no_grad_pure frozen_embeddings_of_def
      hypothesis_input_ids_def drop_first_column_m_def eos_column_def wrap_int64_def cat_dim1_m_def
      demo_env_def demo_world_def Let_def)

subsection \<open>\<open>compute_loss\<close>: the placeholder inputs and the hypothesis\<close>


lemma torch_ones_all_one:
  "torch_ones b l = FloatT m \<Longrightarrow> wf_matrix m \<and> list_all (list_all (\<lambda>x. x = 1)) (rows m)"
  by (auto simp: torch_ones_def wf_matrix_def list_all_iff)







subsection \<open>\<open>generate\<close>: the delegated call\<close>

text \<open>
  Claim C3. For a batch that holds the four fields \<^verbatim>\<open>generate\<close> reads, the value
  returned is the result of the inversion trainer's own \<^verbatim>\<open>generate\<close>, called with the
  given generation arguments on the caller's mapping as \<^verbatim>\<open>generate\<close> has left it: its
  \<^verbatim>\<open>frozen_embeddings\<close> entry is the output of the correction model on the frozen
  embedding of the embedder inputs and on the batch's \<^verbatim>\<open>input_ids\<close> and
  \<^verbatim>\<open>attention_mask\<close>, and every other entry is as the caller gave it.
\<close>

theorem generate_delegates_with_corrected_embedding:
  assumes "inputs ''embedder_input_ids'' = Some e_ids"
      and "inputs ''embedder_attention_mask'' = Some e_mask"
      and "inputs ''input_ids'' = Some ids"
      and "inputs ''attention_mask'' = Some am"
  shows "fst (fst (generate self env inputs generation_kwargs w)) =
           Inr (trainer_generate env (inversion_trainer w) (grad_enabled w)
                  (snd (fst (generate self env inputs generation_kwargs w))) generation_kwargs)
     \<and> snd (fst (generate self env inputs generation_kwargs w)) ''frozen_embeddings'' =
           Some (corrector_forward env (self_model self) False
                   (call_embedding_model env (model (inversion_trainer w)) False e_ids e_mask)
                   ids am)
     \<and> (\<forall>k. k \<noteq> ''frozen_embeddings'' \<longrightarrow>
           snd (fst (generate self env inputs generation_kwargs w)) k = inputs k)"
  by (simp add: generate_ok [OF assms] Let_def)

theorem generate_delegates_with_corrected_embedding_witness:
  "snd (fst (generate demo_trainer demo_env demo_batch [] demo_world)) ''frozen_embeddings''
     = Some (FloatT (Mat 2 2 [[7, 7], [7, 7]]))
   \<and> snd (fst (generate demo_trainer demo_env demo_batch [] demo_world)) ''labels''
     = demo_batch ''labels''
   \<and> call_embedding_model demo_env (model (inversion_trainer demo_world)) False
        (LongT (Mat 2 3 [[4, 5, 1], [6, 1, 0]])) (LongT (Mat 2 3 [[1, 1, 1], [1, 1, 0]]))
     = FloatT (Mat 2 2 [[0, 1], [0, 1]])"
proof -
  note T = generate_delegates_with_corrected_embedding
         [OF demo_keys(1) demo_keys(2) demo_keys(3) demo_keys(4),
          of demo_trainer demo_env "[]" demo_world]
  note A = T [THEN conjunct2, THEN conjunct1]
  note B = T [THEN conjunct2, THEN conjunct2, THEN spec, of "''labels''"]
  have a: "snd (fst (generate demo_trainer demo_env demo_batch [] demo_world)) ''frozen_embeddings''
     = Some (FloatT (Mat 2 2 [[7, 7], [7, 7]]))"
    unfolding A by (simp add: demo_env_simps replicate_two)
  have n: "''labels'' \<noteq> ''frozen_embeddings''" by simp
  have b: "snd (fst (generate demo_trainer demo_env demo_batch [] demo_world)) ''labels''
     = demo_batch ''labels''"
    using B n by (rule mp)
  have c: "call_embedding_model demo_env (model (inversion_trainer demo_world)) False
        (LongT (Mat 2 3 [[4, 5, 1], [6, 1, 0]])) (LongT (Mat 2 3 [[1, 1, 1], [1, 1, 0]]))
     = FloatT (Mat 2 2 [[0, 1], [0, 1]])"
    by (simp add: demo_env_simps replicate_two)
  from a b c show ?thesis by simp
qed

subsection \<open>\<open>generate\<close>: gradient modes\<close>

lemma corrected_embeddings_agree:
  assumes "\<And>m x y. call_embedding_model env m False x y = call_embedding_model env' m False x y"
      and "\<And>c e x y. corrector_forward env c False e x y = corrector_forward env' c False e x y"
  shows "corrected_embeddings self env inputs (w\<lparr>grad_enabled := False\<rparr>)
           = corrected_embeddings self env' inputs (w\<lparr>grad_enabled := False\<rparr>)"
  by (simp add: corrected_embeddings_def assms split: sum.splits)

text \<open>
  Claim C4, as amended. The embedding step and the correction step of \<^verbatim>\<open>generate\<close>
  run with gradients off, whatever the caller's gradient mode: two sets of
  collaborators that agree on these two steps with gradients off (and on the inversion
  trainer's \<^verbatim>\<open>generate\<close>) give the same result, so what the two models do with
  gradients on is never consulted. The \<^verbatim>\<open>with\<close> block ends before the batch is written
  and before the delegated call, which therefore runs under the caller's gradient mode.
  The call leaves the world, and so the gradient mode, as it found it, also when it
  raises.
\<close>

theorem generate_gradient_modes:
  assumes "\<forall>m x y. call_embedding_model env m False x y = call_embedding_model env' m False x y"
      and "\<forall>c e x y. corrector_forward env c False e x y = corrector_forward env' c False e x y"
      and "trainer_generate env = trainer_generate env'"
  shows "generate self env inputs generation_kwargs w = generate self env' inputs generation_kwargs w
     \<and> snd (generate self env inputs generation_kwargs w) = w
     \<and> (\<forall>e_ids e_mask ids am.
           inputs ''embedder_input_ids'' = Some e_ids \<and>
           inputs ''embedder_attention_mask'' = Some e_mask \<and>
           inputs ''input_ids'' = Some ids \<and>
           inputs ''attention_mask'' = Some am \<longrightarrow>
           fst (fst (generate self env inputs generation_kwargs w)) =
             Inr (trainer_generate env (inversion_trainer w) (grad_enabled w)
                    (inputs(''frozen_embeddings'' \<mapsto>
                       corrector_forward env (self_model self) False
                         (call_embedding_model env (model (inversion_trainer w)) False e_ids e_mask)
                         ids am))
                    generation_kwargs))"
proof (intro conjI)
  have "corrected_embeddings self env inputs (w\<lparr>grad_enabled := False\<rparr>)
           = corrected_embeddings self env' inputs (w\<lparr>grad_enabled := False\<rparr>)"
    using assms(1,2) by (intro corrected_embeddings_agree) simp_all
  then show "generate self env inputs generation_kwargs w = generate self env' inputs generation_kwargs w"
    by (simp add: generate_def no_grad_pure assms(3) Let_def split: sum.splits)
  show "snd (generate self env inputs generation_kwargs w) = w"
    by (rule generate_world)
  show "\<forall>e_ids e_mask ids am.
           inputs ''embedder_input_ids'' = Some e_ids \<and>
           inputs ''embedder_attention_mask'' = Some e_mask \<and>
           inputs ''input_ids'' = Some ids \<and>
           inputs ''attention_mask'' = Some am \<longrightarrow>
           fst (fst (generate self env inputs generation_kwargs w)) =
             Inr (trainer_generate env (inversion_trainer w) (grad_enabled w)
                    (inputs(''frozen_embeddings'' \<mapsto>
                       corrector_forward env (self_model self) False
                         (call_embedding_model env (model (inversion_trainer w)) False e_ids e_mask)
                         ids am))
                    generation_kwargs)"
    by (intro allI impI) (simp add: generate_ok Let_def)
qed

theorem generate_gradient_modes_witness:
  "generate demo_trainer demo_env demo_batch [] demo_world
     = generate demo_trainer demo_env_grad demo_batch [] demo_world
   \<and> grad_enabled (snd (generate demo_trainer demo_env demo_batch [] demo_world)) = True
   \<and> fst (fst (generate demo_trainer demo_env demo_batch [] demo_world))
       = Inr (BoolT (Mat 1 1 [[True]]))"
proof -
  have a: "\<forall>m x y. call_embedding_model demo_env m False x y
             = call_embedding_model demo_env_grad m False x y"
    by (simp add: demo_env_grad_def)
  have b: "\<forall>c e x y. corrector_forward demo_env c False e x y
             = corrector_forward demo_env_grad c False e x y"
    by (simp add: demo_env_grad_def)
  have c: "trainer_generate demo_env = trainer_generate demo_env_grad"
    by (simp add: demo_env_grad_def)
  note T = generate_gradient_modes [OF a b c, of demo_trainer demo_batch "[]" demo_world]
  note T1 = T [THEN conjunct1]
  note T2 = T [THEN conjunct2, THEN conjunct1]
  note T3 = T [THEN conjunct2, THEN conjunct2, THEN spec, THEN spec, THEN spec, THEN spec, THEN mp,
               OF conjI [OF demo_keys(1) conjI [OF demo_keys(2) conjI [OF demo_keys(3) demo_keys(4)]]]]
  have g: "grad_enabled (snd (generate demo_trainer demo_env demo_batch [] demo_world)) = True"
    unfolding T2 by (rule demo_world_simps(1))
  have r: "fst (fst (generate demo_trainer demo_env demo_batch [] demo_world))
       = Inr (BoolT (Mat 1 1 [[True]]))"
    unfolding T3 by (simp add: demo_env_simps demo_world_simps)
  from T1 g r show ?thesis by (intro conjI)
qed

text \<open>
  Claim C4 as stated fails: the delegated call is not inside the no-gradient context.
  In the concrete instance the caller's gradient mode is on, the inversion trainer's
  \<^verbatim>\<open>generate\<close> returns the mode it is called under, and \<^verbatim>\<open>generate\<close> returns ``on''.
\<close>

theorem generate_delegated_call_counterexample:
  "grad_enabled demo_world = True
   \<and> trainer_generate demo_env (inversion_trainer demo_world) True demo_batch [] = BoolT (Mat 1 1 [[True]])
   \<and> trainer_generate demo_env (inversion_trainer demo_world) False demo_batch [] = BoolT (Mat 1 1 [[False]])
   \<and> fst (fst (generate demo_trainer demo_env demo_batch [] demo_world)) = Inr (BoolT (Mat 1 1 [[True]]))"
  by (simp add: generate_ok [OF demo_keys(1-4)] demo_env_simps demo_world_simps)

subsection \<open>The constructor\<close>

lemma CorrectorTrainer_init_world: "snd (CorrectorTrainer_init m a w) = after_construction m a w"
  by (simp add: CorrectorTrainer_init_def BaseTrainer_init_def after_construction_def Let_def)

lemma CorrectorTrainer_init_result:
  "fst (CorrectorTrainer_init m a w) =
     (if fp16 a \<noteq> fp16 (args (inversion_trainer w)) \<or> bf16 a \<noteq> bf16 (args (inversion_trainer w))
      then Inl AssertionError
      else Inr \<lparr>self_model = m, self_args = a,
                self_train_dataset = train_dataset (inversion_trainer w),
                self_eval_dataset = eval_dataset (inversion_trainer w),
                self_data_collator = data_collator (inversion_trainer w),
                self_tokenizer = tokenizer (model (inversion_trainer w)),
                self_embedder_tokenizer = embedder_tokenizer (model (inversion_trainer w))\<rparr>)"
  by (simp add: CorrectorTrainer_init_def BaseTrainer_init_def freeze_params_def Let_def)

text \<open>
  Claim C5, as amended. When the \<^verbatim>\<open>fp16\<close> or the \<^verbatim>\<open>bf16\<close> flag of the training
  arguments differs from the inversion trainer's, construction fails with an
  \<^verbatim>\<open>AssertionError\<close> and returns no trainer. The two assertions are the last statements
  of the constructor: when they fail, the inversion model's parameters have been frozen,
  its \<^verbatim>\<open>use_frozen_embeddings_as_input\<close> flag has been set, and the base trainer has
  been initialised, and these effects on the caller's inversion trainer remain.
\<close>

theorem precision_mismatch_fails_after_side_effects:
  assumes "fp16 a \<noteq> fp16 (args (inversion_trainer w)) \<or> bf16 a \<noteq> bf16 (args (inversion_trainer w))"
  shows "fst (CorrectorTrainer_init m a w) = Inl AssertionError
     \<and> snd (CorrectorTrainer_init m a w) = after_construction m a w
     \<and> requires_grad (model (inversion_trainer (snd (CorrectorTrainer_init m a w))))
         = map (\<lambda>_. False) (requires_grad (model (inversion_trainer w)))
     \<and> use_frozen_embeddings_as_input (model (inversion_trainer (snd (CorrectorTrainer_init m a w))))
     \<and> length (base_trainer_inits (snd (CorrectorTrainer_init m a w)))
         = Suc (length (base_trainer_inits w))"
  using assms
  by (simp add: CorrectorTrainer_init_world CorrectorTrainer_init_result after_construction_def
      freeze_params_def)

theorem precision_mismatch_fails_after_side_effects_witness:
  "fst (CorrectorTrainer_init 0 mismatched_args demo_world) = Inl AssertionError
   \<and> fp16 mismatched_args \<noteq> fp16 (args (inversion_trainer demo_world))
   \<and> length (base_trainer_inits (snd (CorrectorTrainer_init 0 mismatched_args demo_world))) = 1"
proof -
  have h: "fp16 mismatched_args \<noteq> fp16 (args (inversion_trainer demo_world))"
    by (simp add: mismatched_args_def demo_world_def)
  note T = precision_mismatch_fails_after_side_effects [OF disjI1 [OF h], of 0]
  note T1 = T [THEN conjunct1]
  note T5 = T [THEN conjunct2, THEN conjunct2, THEN conjunct2, THEN conjunct2]
  have l: "length (base_trainer_inits (snd (CorrectorTrainer_init 0 mismatched_args demo_world))) = 1"
    unfolding T5 by (simp add: demo_world_def)
  from T1 h l show ?thesis by (intro conjI)
qed

text \<open>
  Claim C5 as stated fails: the failed construction has side effects. In the concrete
  instance the construction raises, and the inversion model, which had trainable
  parameters and the flag off, is left frozen with the flag on, with one base trainer
  initialisation recorded.
\<close>

theorem precision_mismatch_side_effects_counterexample:
  "fst (CorrectorTrainer_init 0 mismatched_args demo_world) = Inl AssertionError
   \<and> requires_grad (model (inversion_trainer demo_world)) = [True, True, False]
   \<and> requires_grad (model (inversion_trainer (snd (CorrectorTrainer_init 0 mismatched_args demo_world))))
       = [False, False, False]
   \<and> use_frozen_embeddings_as_input (model (inversion_trainer demo_world)) = False
   \<and> use_frozen_embeddings_as_input
       (model (inversion_trainer (snd (CorrectorTrainer_init 0 mismatched_args demo_world)))) = True
   \<and> base_trainer_inits demo_world = []
   \<and> base_trainer_inits (snd (CorrectorTrainer_init 0 mismatched_args demo_world))
       = [\<lparr>self_model = 0, self_args = mismatched_args, self_train_dataset = 1,
           self_eval_dataset = 2, self_data_collator = 3\<rparr>]"
  by (simp add: CorrectorTrainer_init_world CorrectorTrainer_init_result after_construction_def
      freeze_params_def mismatched_args_def demo_world_def demo_inversion_model_def)

text \<open>
  Claim C6. After a construction that succeeds, no parameter of the inversion model
  requires gradients and its \<^verbatim>\<open>use_frozen_embeddings_as_input\<close> flag is true; and
  \<^verbatim>\<open>generate\<close>, \<^verbatim>\<open>compute_loss\<close> and \<^verbatim>\<open>prediction_step\<close> keep this state: started in
  a world where it holds, each ends in a world where it holds.
\<close>

theorem construction_freezes_inversion_model:
  assumes "CorrectorTrainer_init m a w = (Inr self, w')"
  shows "inversion_model_frozen w'
     \<and> (\<forall>v. inversion_model_frozen v \<longrightarrow>
           inversion_model_frozen (snd (generate self env inputs generation_kwargs v))
         \<and> inversion_model_frozen (snd (compute_loss self env model_arg inputs return_outputs v))
         \<and> inversion_model_frozen
             (snd (prediction_step self env model_arg inputs prediction_loss_only ignore_keys v)))"
proof -
  from assms have "w' = snd (CorrectorTrainer_init m a w)" by simp
  then have "w' = after_construction m a w" by (simp add: CorrectorTrainer_init_world)
  then have "inversion_model_frozen w'"
    by (simp add: inversion_model_frozen_def after_construction_def freeze_params_def list_all_iff)
  then show ?thesis
    by (simp add: generate_world compute_loss_world prediction_step_world)
qed

theorem construction_freezes_inversion_model_witness:
  "CorrectorTrainer_init 0 matching_args demo_world = (Inr demo_trainer, after_construction 0 matching_args demo_world)
   \<and> requires_grad (model (inversion_trainer (after_construction 0 matching_args demo_world)))
       = [False, False, False]
   \<and> inversion_model_frozen (after_construction 0 matching_args demo_world)
   \<and> inversion_model_frozen
       (snd (generate demo_trainer demo_env demo_batch [] (after_construction 0 matching_args demo_world)))"
proof -
  have c: "CorrectorTrainer_init 0 matching_args demo_world
             = (Inr demo_trainer, after_construction 0 matching_args demo_world)"
    by (rule prod_eqI)
       (simp_all add: CorrectorTrainer_init_world CorrectorTrainer_init_result matching_args_def
          demo_world_def demo_trainer_def demo_inversion_model_def)
  have r: "requires_grad (model (inversion_trainer (after_construction 0 matching_args demo_world)))
       = [False, False, False]"
    by (simp add: after_construction_def freeze_params_def demo_world_def demo_inversion_model_def)
  note T = construction_freezes_inversion_model [OF c, of demo_env demo_batch "[]" 0 False False None]
  note T1 = T [THEN conjunct1]
  note T2 = T [THEN conjunct2, THEN spec, THEN mp, OF T1, THEN conjunct1]
  from c r T1 T2 show ?thesis by (intro conjI)
qed

subsection \<open>Which operation writes the caller's batch\<close>

lemma prediction_step_batch: "snd (fst (prediction_step self env m inputs plo ik w)) = inputs"
  apply (simp add: prediction_step_def Let_def moved_same)
  apply (subst compute_loss_triple)
  apply (simp add: no_grad_def split: sum.splits)
  done

text \<open>
  Claim C7, as amended. Only \<^verbatim>\<open>generate\<close> writes the caller's mapping, and it does so
  before it delegates: for a batch that holds the four fields it reads, the inversion
  trainer's \<^verbatim>\<open>generate\<close> receives, and the caller is left with, the mapping with
  \<^verbatim>\<open>frozen_embeddings\<close> set to the correction model's output; and after every call of
  \<^verbatim>\<open>generate\<close> that returns, the caller's mapping has a \<^verbatim>\<open>frozen_embeddings\<close> entry.
  \<^verbatim>\<open>compute_loss\<close> never writes the caller's mapping: it hands a mapping of its own to
  the inversion model's \<^verbatim>\<open>generate\<close>, and the caller's mapping after the call is the
  one before it.
\<close>

theorem only_generate_writes_the_batch:
  "snd (fst (compute_loss self env model_arg inputs return_outputs w)) = inputs
   \<and> (\<forall>e_ids e_mask ids am.
         inputs ''embedder_input_ids'' = Some e_ids \<and>
         inputs ''embedder_attention_mask'' = Some e_mask \<and>
         inputs ''input_ids'' = Some ids \<and>
         inputs ''attention_mask'' = Some am \<longrightarrow>
         snd (fst (generate self env inputs generation_kwargs w)) =
           inputs(''frozen_embeddings'' \<mapsto>
             corrector_forward env (self_model self) False
               (call_embedding_model env (model (inversion_trainer w)) False e_ids e_mask) ids am)
         \<and> fst (fst (generate self env inputs generation_kwargs w)) =
             Inr (trainer_generate env (inversion_trainer w) (grad_enabled w)
                    (inputs(''frozen_embeddings'' \<mapsto>
                       corrector_forward env (self_model self) False
                         (call_embedding_model env (model (inversion_trainer w)) False e_ids e_mask)
                         ids am))
                    generation_kwargs))
   \<and> (\<forall>r. fst (fst (generate self env inputs generation_kwargs w)) = Inr r \<longrightarrow>
         snd (fst (generate self env inputs generation_kwargs w)) ''frozen_embeddings'' \<noteq> None)"
proof (intro conjI)
  show "snd (fst (compute_loss self env model_arg inputs return_outputs w)) = inputs"
    by (rule compute_loss_batch)
  show "\<forall>e_ids e_mask ids am.
         inputs ''embedder_input_ids'' = Some e_ids \<and>
         inputs ''embedder_attention_mask'' = Some e_mask \<and>
         inputs ''input_ids'' = Some ids \<and>
         inputs ''attention_mask'' = Some am \<longrightarrow>
         snd (fst (generate self env inputs generation_kwargs w)) =
           inputs(''frozen_embeddings'' \<mapsto>
             corrector_forward env (self_model self) False
               (call_embedding_model env (model (inversion_trainer w)) False e_ids e_mask) ids am)
         \<and> fst (fst (generate self env inputs generation_kwargs w)) =
             Inr (trainer_generate env (inversion_trainer w) (grad_enabled w)
                    (inputs(''frozen_embeddings'' \<mapsto>
                       corrector_forward env (self_model self) False
                         (call_embedding_model env (model (inversion_trainer w)) False e_ids e_mask)
                         ids am))
                    generation_kwargs)"
    by (intro allI impI) (simp add: generate_ok Let_def)
  show "\<forall>r. fst (fst (generate self env inputs generation_kwargs w)) = Inr r \<longrightarrow>
         snd (fst (generate self env inputs generation_kwargs w)) ''frozen_embeddings'' \<noteq> None"
    by (simp add: generate_def no_grad_pure Let_def split: sum.splits)
qed

theorem only_generate_writes_the_batch_witness:
  "snd (fst (generate demo_trainer demo_env demo_batch [] demo_world))
     = demo_batch(''frozen_embeddings'' \<mapsto> FloatT (Mat 2 2 [[7, 7], [7, 7]]))
   \<and> snd (fst (compute_loss demo_trainer demo_env 0 demo_batch False demo_world)) = demo_batch
   \<and> fst (fst (generate demo_trainer demo_env demo_batch [] demo_world))
       = Inr (BoolT (Mat 1 1 [[True]]))
   \<and> snd (fst (generate demo_trainer demo_env demo_batch [] demo_world)) ''frozen_embeddings''
       \<noteq> None"
proof -
  note T = only_generate_writes_the_batch [of demo_trainer demo_env 0 demo_batch False demo_world "[]"]
  note T1 = T [THEN conjunct1]
  note T2 = T [THEN conjunct2, THEN conjunct1, THEN spec, THEN spec, THEN spec, THEN spec, THEN mp,
               OF conjI [OF demo_keys(1) conjI [OF demo_keys(2) conjI [OF demo_keys(3) demo_keys(4)]]]]
  have a: "snd (fst (generate demo_trainer demo_env demo_batch [] demo_world))
     = demo_batch(''frozen_embeddings'' \<mapsto> FloatT (Mat 2 2 [[7, 7], [7, 7]]))"
    unfolding T2 [THEN conjunct1] by (simp add: demo_env_simps replicate_two)
  have r: "fst (fst (generate demo_trainer demo_env demo_batch [] demo_world))
       = Inr (BoolT (Mat 1 1 [[True]]))"
    unfolding T2 [THEN conjunct2] by (simp add: demo_env_simps demo_world_simps)
  note U = T [THEN conjunct2, THEN conjunct2, THEN spec, THEN mp, OF r]
  from a T1 r U show ?thesis by (intro conjI)
qed

text \<open>
  Claim C7 as stated fails for \<^verbatim>\<open>compute_loss\<close>: in the concrete instance the batch
  has no \<^verbatim>\<open>frozen_embeddings\<close> entry, \<^verbatim>\<open>compute_loss\<close> returns a loss, and the batch
  still has no such entry afterwards.
\<close>

theorem compute_loss_leaves_batch_counterexample:
  "demo_batch ''frozen_embeddings'' = None
   \<and> fst (fst (compute_loss demo_trainer demo_env 0 demo_batch False demo_world)) = Inr 21
   \<and> snd (fst (compute_loss demo_trainer demo_env 0 demo_batch False demo_world)) ''frozen_embeddings''
       = None"
  by (simp add: demo_keys demo_loss_grad_on compute_loss_batch)

subsection \<open>\<open>prediction_step\<close>\<close>

text \<open>
  Claim C9. For every batch, every \<^verbatim>\<open>prediction_loss_only\<close> and every
  \<^verbatim>\<open>ignore_keys\<close>, the outcome of \<^verbatim>\<open>prediction_step\<close> is the outcome of
  \<^verbatim>\<open>compute_loss\<close> on that batch with gradients off: when \<^verbatim>\<open>compute_loss\<close> returns a
  loss, \<^verbatim>\<open>prediction_step\<close> returns the tuple of that loss and two absent values, and
  when \<^verbatim>\<open>compute_loss\<close> raises, the same error propagates. The gradient mode of the
  caller is restored.
\<close>

theorem prediction_step_returns_loss_only:
  "fst (fst (prediction_step self env model_arg inputs prediction_loss_only ignore_keys w)) =
     map_sum id (\<lambda>loss. (loss, None, None))
       (fst (fst (compute_loss self env model_arg inputs False (w\<lparr>grad_enabled := False\<rparr>))))
   \<and> snd (prediction_step self env model_arg inputs prediction_loss_only ignore_keys w) = w"
proof (intro conjI)
  show "fst (fst (prediction_step self env model_arg inputs prediction_loss_only ignore_keys w)) =
     map_sum id (\<lambda>loss. (loss, None, None))
       (fst (fst (compute_loss self env model_arg inputs False (w\<lparr>grad_enabled := False\<rparr>))))"
    apply (simp add: prediction_step_def Let_def moved_same)
    apply (subst compute_loss_triple)
    apply (simp add: no_grad_def split: sum.splits)
    done
  show "snd (prediction_step self env model_arg inputs prediction_loss_only ignore_keys w) = w"
    by (rule prediction_step_world)
qed

theorem prediction_step_returns_loss_only_witness:
  "fst (fst (prediction_step demo_trainer demo_env 0 demo_batch True (Some [''logits'']) demo_world))
     = Inr (20, None, None)
   \<and> fst (fst (prediction_step demo_trainer demo_env 0 demo_batch False None demo_world))
     = Inr (20, None, None)
   \<and> fst (fst (prediction_step demo_trainer demo_env 0 Map.empty False None demo_world))
     = Inl (KeyError ''input_ids'')"
proof -
  note c = demo_loss_grad_off
  have d: "fst (fst (compute_loss demo_trainer demo_env 0 Map.empty False
                       (demo_world\<lparr>grad_enabled := False\<rparr>))) = Inl (KeyError ''input_ids'')"
    by (simp add: compute_loss_def lookup_def)
  note T = prediction_step_returns_loss_only [THEN conjunct1]
  have a: "fst (fst (prediction_step demo_trainer demo_env 0 demo_batch True (Some [''logits'']) demo_world))
     = Inr (20, None, None)"
    unfolding T c by simp
  have b: "fst (fst (prediction_step demo_trainer demo_env 0 demo_batch False None demo_world))
     = Inr (20, None, None)"
    unfolding T c by simp
  have e: "fst (fst (prediction_step demo_trainer demo_env 0 Map.empty False None demo_world))
     = Inl (KeyError ''input_ids'')"
    unfolding T d by simp
  from a b e show ?thesis by (intro conjI)
qed

subsection \<open>\<open>compute_loss\<close> reads only the shape of \<open>input_ids\<close>\<close>

lemma frozen_embeddings_of_cong:
  assumes "inputs1 ''embedder_input_ids'' = inputs2 ''embedder_input_ids''"
      and "inputs1 ''embedder_attention_mask'' = inputs2 ''embedder_attention_mask''"
  shows "frozen_embeddings_of env inputs1 v = frozen_embeddings_of env inputs2 v"
  using assms by (simp add: frozen_embeddings_of_def lookup_def split: option.splits)

text \<open>
  Claim C10. With the collaborators fixed (they are functions of their arguments), two
  batches that agree on \<^verbatim>\<open>embedder_input_ids\<close>, \<^verbatim>\<open>embedder_attention_mask\<close> and
  \<^verbatim>\<open>labels\<close>, and whose \<^verbatim>\<open>input_ids\<close> have the same shape, give the same outcome of
  \<^verbatim>\<open>compute_loss\<close>, whatever the values in \<^verbatim>\<open>input_ids\<close>.
\<close>

theorem compute_loss_reads_only_shape_of_input_ids:
  assumes e1: "inputs1 ''embedder_input_ids'' = inputs2 ''embedder_input_ids''"
      and e2: "inputs1 ''embedder_attention_mask'' = inputs2 ''embedder_attention_mask''"
      and lb: "inputs1 ''labels'' = inputs2 ''labels''"
      and i1: "inputs1 ''input_ids'' = Some t1"
      and i2: "inputs2 ''input_ids'' = Some t2"
      and sh: "shape t1 = shape t2"
  shows "fst (fst (compute_loss self env model_arg1 inputs1 return_outputs1 w))
       = fst (fst (compute_loss self env model_arg2 inputs2 return_outputs2 w))"
proof -
  obtain B L where s2: "shape t2 = (B, L)" by (cases "shape t2")
  with sh have s1: "shape t1 = (B, L)" by simp
  have f: "frozen_embeddings_of env inputs1 (w\<lparr>grad_enabled := False\<rparr>)
         = frozen_embeddings_of env inputs2 (w\<lparr>grad_enabled := False\<rparr>)"
    by (rule frozen_embeddings_of_cong [OF e1 e2])
  have l: "lookup inputs1 ''labels'' = lookup inputs2 ''labels''"
    by (simp add: lookup_def lb)
  show ?thesis
    by (simp add: compute_loss_def lookup_def i1 i2 s1 s2 no_grad_pure f l [unfolded lookup_def] lb
        Let_def split: sum.splits)
qed

theorem compute_loss_reads_only_shape_of_input_ids_witness:
  "probe_batch ''input_ids'' \<noteq> demo_batch ''input_ids''
   \<and> fst (fst (compute_loss demo_trainer demo_env 0 demo_batch False demo_world))
     = fst (fst (compute_loss demo_trainer demo_env 0 probe_batch False demo_world))"
proof -
  have n: "probe_batch ''input_ids'' \<noteq> demo_batch ''input_ids''"
    by (simp add: probe_batch_def demo_keys)
  have k: "demo_batch ''embedder_input_ids'' = probe_batch ''embedder_input_ids''"
    "demo_batch ''embedder_attention_mask'' = probe_batch ''embedder_attention_mask''"
    "demo_batch ''labels'' = probe_batch ''labels''"
    "probe_batch ''input_ids'' = Some (LongT (Mat 2 3 [[9, 9, 9], [8, 8, 8]]))"
    by (simp_all add: probe_batch_def)
  have s: "shape (LongT (Mat 2 3 [[4, 5, 1], [6, 1, 0]])) = shape (LongT (Mat 2 3 [[9, 9, 9], [8, 8, 8]]))"
    by simp
  from n compute_loss_reads_only_shape_of_input_ids
         [OF k(1) k(2) k(3) demo_keys(3) k(4) s, of demo_trainer demo_env 0 False demo_world 0 False]
  show ?thesis by (rule conjI)
qed

end
